theory Spec2Isabelle
  imports Complex_Main
begin

section \<open>The payroll edit dialog (src/components/payroll/PayrollEditModal.tsx)\<close>

text \<open>
  The component keeps five pieces of React state (the draft record and four input
  strings), resets them in one effect, changes them in six change handlers and hands
  the draft to the caller's \<^verbatim>\<open>onSave\<close> from the Save button. Every handler is a
  function from the state before the event to the state after it; the Save click is a
  function to the record \<^verbatim>\<open>onSave\<close> receives, or \<open>None\<close> when \<^verbatim>\<open>onSave\<close> is not
  called. The JavaScript built-ins the handlers call are modelled first.
\<close>

subsection \<open>JavaScript numbers\<close>

text \<open>
  A Number is a binary64 value: a finite value, one of the two infinities, or NaN. A
  finite value is kept as the rational it denotes, and every operation that rounds in
  the code rounds here, to the nearest binary64 value, ties to the even mantissa,
  beyond the largest finite value to an infinity and below the smallest to 0. The sign
  of zero is not part of the model: -0 is 0 (they are equal under \<^verbatim>\<open>===\<close>, both falsy,
  both printed as \<^verbatim>\<open>0\<close>, and \<^verbatim>\<open>Math.max(0, -0)\<close> is 0).
\<close>

datatype jsnum = Finite rat | Infinity | NegInfinity | NaN

text \<open>ToBoolean on a Number: \<^verbatim>\<open>0\<close> and \<^verbatim>\<open>NaN\<close> are falsy.\<close>

fun truthy :: "jsnum \<Rightarrow> bool" where
  "truthy (Finite q) = (q \<noteq> 0)"
| "truthy Infinity = True"
| "truthy NegInfinity = True"
| "truthy NaN = False"

text \<open>The number of binary digits of an integer that is not negative.\<close>

function bit_length :: "int \<Rightarrow> int" where
  "bit_length i = (if i \<le> 0 then 0 else bit_length (i div 2) + 1)"
  by pat_completeness auto
termination
  by (relation "measure nat") auto

declare bit_length.simps [simp del]

definition pow2 :: "int \<Rightarrow> rat" where
  "pow2 e = (if 0 \<le> e then 2 ^ nat e else 1 / 2 ^ nat (- e))"

text \<open>The exponent \<open>l\<close> with \<open>2\<^sup>l \<le> a < 2\<^sup>l\<^sup>+\<^sup>1\<close>, for a positive \<open>a\<close>.\<close>

definition ilog2 :: "rat \<Rightarrow> int" where
  "ilog2 a = (if 1 \<le> a then bit_length \<lfloor>a\<rfloor> - 1 else - bit_length (\<lceil>1 / a\<rceil> - 1))"

text \<open>The nearest integer, the even one of two that are equally near.\<close>

definition rne :: "rat \<Rightarrow> int" where
  "rne q =
     (let f = \<lfloor>q\<rfloor>; r = q - of_int f
      in if r < 1 / 2 then f else if 1 / 2 < r then f + 1 else if even f then f else f + 1)"

text \<open>
  The binary64 value of a real number (roundTiesToEven): a mantissa \<open>m\<close> of at most 53
  bits and an exponent \<open>e\<close> from -1074 to 971, with value \<open>m \<times> 2\<^sup>e\<close>. A magnitude of
  \<open>2\<^sup>1\<^sup>0\<^sup>2\<^sup>4\<close> or more after rounding is an infinity; one of \<open>2\<^sup>-\<^sup>1\<^sup>0\<^sup>7\<^sup>5\<close> or less rounds
  to 0.
\<close>

definition round64 :: "rat \<Rightarrow> jsnum" where
  "round64 q =
     (if q = 0 then Finite 0
      else
        (let a = \<bar>q\<bar>;
             e = max (ilog2 a - 52) (- 1074)
         in if 971 < e then (if q < 0 then NegInfinity else Infinity)
            else if ilog2 a < - 1075 then Finite 0
            else
              (let m = rne (a / pow2 e)
               in if e = 971 \<and> m = 9007199254740992
                  then (if q < 0 then NegInfinity else Infinity)
                  else Finite (if q < 0 then - (of_int m * pow2 e) else of_int m * pow2 e))))"

fun js_neg :: "jsnum \<Rightarrow> jsnum" where
  "js_neg (Finite q) = Finite (- q)"
| "js_neg Infinity = NegInfinity"
| "js_neg NegInfinity = Infinity"
| "js_neg NaN = NaN"

text \<open>\<^verbatim>\<open>a + b\<close> on Numbers: the sum of two finite values is rounded.\<close>

fun js_add :: "jsnum \<Rightarrow> jsnum \<Rightarrow> jsnum" where
  "js_add (Finite a) (Finite b) = round64 (a + b)"
| "js_add (Finite a) Infinity = Infinity"
| "js_add (Finite a) NegInfinity = NegInfinity"
| "js_add Infinity (Finite b) = Infinity"
| "js_add Infinity Infinity = Infinity"
| "js_add Infinity NegInfinity = NaN"
| "js_add NegInfinity (Finite b) = NegInfinity"
| "js_add NegInfinity NegInfinity = NegInfinity"
| "js_add NegInfinity Infinity = NaN"
| "js_add NaN b = NaN"
| "js_add a NaN = NaN"

text \<open>\<^verbatim>\<open>a - b\<close> on Numbers: \<open>a + (-b)\<close>, rounded once.\<close>

definition js_sub :: "jsnum \<Rightarrow> jsnum \<Rightarrow> jsnum" where
  "js_sub a b = js_add a (js_neg b)"

text \<open>\<^verbatim>\<open>Math.max(a, b)\<close>: NaN when either argument is NaN.\<close>

fun Math_max :: "jsnum \<Rightarrow> jsnum \<Rightarrow> jsnum" where
  "Math_max (Finite a) (Finite b) = Finite (max a b)"
| "Math_max (Finite a) Infinity = Infinity"
| "Math_max (Finite a) NegInfinity = Finite a"
| "Math_max Infinity (Finite b) = Infinity"
| "Math_max Infinity Infinity = Infinity"
| "Math_max Infinity NegInfinity = Infinity"
| "Math_max NegInfinity (Finite b) = Finite b"
| "Math_max NegInfinity Infinity = Infinity"
| "Math_max NegInfinity NegInfinity = NegInfinity"
| "Math_max NaN b = NaN"
| "Math_max a NaN = NaN"

subsection \<open>JavaScript strings\<close>

text \<open>
  A string is the list of the bytes of its UTF-8 encoding. The operations the component
  uses (comparison with the empty string, splitting and replacing at an ASCII
  character, padding and slicing ASCII text) give on it what they give on the code's
  UTF-16 strings.

  The white space that \<^verbatim>\<open>parseInt\<close> and \<^verbatim>\<open>parseFloat\<close> skip (StrWhiteSpaceChar): tab, line
  feed, vertical tab, form feed, carriage return, space, and the encodings of U+00A0,
  U+1680, U+2000 to U+200A, U+2028, U+2029, U+202F, U+205F, U+3000 and U+FEFF.
\<close>

definition ws_seqs :: "string list" where
  "ws_seqs =
     [[CHR 0x09], [CHR 0x0A], [CHR 0x0B], [CHR 0x0C], [CHR 0x0D], [CHR 0x20],
      [CHR 0xC2, CHR 0xA0],
      [CHR 0xE1, CHR 0x9A, CHR 0x80],
      [CHR 0xE2, CHR 0x80, CHR 0x80], [CHR 0xE2, CHR 0x80, CHR 0x81],
      [CHR 0xE2, CHR 0x80, CHR 0x82], [CHR 0xE2, CHR 0x80, CHR 0x83],
      [CHR 0xE2, CHR 0x80, CHR 0x84], [CHR 0xE2, CHR 0x80, CHR 0x85],
      [CHR 0xE2, CHR 0x80, CHR 0x86], [CHR 0xE2, CHR 0x80, CHR 0x87],
      [CHR 0xE2, CHR 0x80, CHR 0x88], [CHR 0xE2, CHR 0x80, CHR 0x89],
      [CHR 0xE2, CHR 0x80, CHR 0x8A],
      [CHR 0xE2, CHR 0x80, CHR 0xA8], [CHR 0xE2, CHR 0x80, CHR 0xA9],
      [CHR 0xE2, CHR 0x80, CHR 0xAF],
      [CHR 0xE2, CHR 0x81, CHR 0x9F],
      [CHR 0xE3, CHR 0x80, CHR 0x80],
      [CHR 0xEF, CHR 0xBB, CHR 0xBF]]"

text \<open>The white space character a string starts with, if it starts with one.\<close>

definition ws_prefix :: "string \<Rightarrow> string option" where
  "ws_prefix s = find (\<lambda>w. take (length w) s = w) ws_seqs"

text \<open>The string without the white space at its start.\<close>

function trimStart :: "string \<Rightarrow> string" where
  "trimStart s = (case ws_prefix s of None \<Rightarrow> s | Some w \<Rightarrow> trimStart (drop (length w) s))"
  by pat_completeness auto
termination
proof (relation "measure length")
  show "wf (measure length)"
    by simp
next
  fix s w
  assume "ws_prefix s = Some w"
  then have w: "w \<in> set ws_seqs" and pre: "take (length w) s = w"
    by (auto simp: ws_prefix_def find_Some_iff)
  from w have "0 < length w"
    by (auto simp: ws_seqs_def)
  moreover from arg_cong [OF pre, of length] have "length w \<le> length s"
    by simp
  ultimately have "length s - length w < length s"
    by arith
  then show "(drop (length w) s, s) \<in> measure length"
    by simp
qed

declare trimStart.simps [simp del]

definition digit_chars :: string where
  "digit_chars = ''0123456789''"

definition is_digit :: "char \<Rightarrow> bool" where
  "is_digit c = (c \<in> set digit_chars)"

text \<open>The position of the first \<open>c\<close> in a list (its length when there is none).\<close>

fun index_of :: "'a \<Rightarrow> 'a list \<Rightarrow> nat" where
  "index_of c [] = 0"
| "index_of c (x # xs) = (if x = c then 0 else Suc (index_of c xs))"

text \<open>The value of a decimal digit: its position in \<open>digit_chars\<close>.\<close>

definition digit_val :: "char \<Rightarrow> int" where
  "digit_val c = int (index_of c digit_chars)"

definition digits_val :: "string \<Rightarrow> int" where
  "digits_val ds = foldl (\<lambda>a c. 10 * a + digit_val c) 0 ds"

text \<open>An optional sign in front of a numeral: whether it is \<^verbatim>\<open>-\<close>, and the rest.\<close>

fun strip_sign :: "string \<Rightarrow> bool \<times> string" where
  "strip_sign [] = (False, [])"
| "strip_sign (c # r) =
     (if c = CHR ''-'' then (True, r)
      else if c = CHR ''+'' then (False, r)
      else (False, c # r))"

text \<open>
  \<^verbatim>\<open>parseInt(s, 10)\<close>: leading white space is skipped, a sign is read, then the longest
  run of decimal digits; \<open>None\<close> is NaN (no digit read). The value is the integer the
  digits denote, which is the code's Number for every integer up to \<open>2\<^sup>5\<^sup>3\<close>.
\<close>

definition parseInt :: "string \<Rightarrow> int option" where
  "parseInt s =
     (let (neg, u) = strip_sign (trimStart s);
          ds = takeWhile is_digit u
      in if ds = [] then None
         else Some (if neg then - digits_val ds else digits_val ds))"

text \<open>
  The exponent part of a StrDecimalLiteral: \<^verbatim>\<open>e\<close> or \<^verbatim>\<open>E\<close>, an optional sign and at
  least one digit; without a digit there is no exponent part and the value is 0.
\<close>

definition exponent_part :: "string \<Rightarrow> int" where
  "exponent_part r =
     (case r of
        [] \<Rightarrow> 0
      | c # r' \<Rightarrow>
          if c = CHR ''e'' \<or> c = CHR ''E'' then
            (let (neg, u) = strip_sign r';
                 ds = takeWhile is_digit u
             in if ds = [] then 0
                else if neg then - digits_val ds else digits_val ds)
          else 0)"

text \<open>The value \<open>m \<times> 10\<^sup>e\<close> of a decimal literal.\<close>

definition scale10 :: "int \<Rightarrow> int \<Rightarrow> rat" where
  "scale10 m e = (if 0 \<le> e then of_int m * 10 ^ nat e else of_int m / 10 ^ nat (- e))"

text \<open>
  \<^verbatim>\<open>parseFloat(s)\<close>: leading white space is skipped and the longest prefix that is a
  StrDecimalLiteral is read: a sign, then \<^verbatim>\<open>Infinity\<close>, or digits with an optional
  fraction and exponent, or a fraction that starts with the point. NaN when there is
  no such prefix; otherwise the binary64 value of the literal, which is an infinity
  for a literal that is too large and 0 for one that is too small.
\<close>

definition parseFloat :: "string \<Rightarrow> jsnum" where
  "parseFloat s =
     (let (neg, u) = strip_sign (trimStart s) in
      if take 8 u = ''Infinity'' then (if neg then NegInfinity else Infinity)
      else
        (let ip = takeWhile is_digit u;
             r1 = dropWhile is_digit u;
             fp = (case r1 of [] \<Rightarrow> [] | c # r \<Rightarrow>
                     if c = CHR ''.'' then takeWhile is_digit r else []);
             r2 = (case r1 of [] \<Rightarrow> [] | c # r \<Rightarrow>
                     if c = CHR ''.'' then dropWhile is_digit r else r1)
         in if ip = [] \<and> fp = [] then NaN
            else
              (let v = scale10 (digits_val (ip @ fp)) (exponent_part r2 - int (length fp))
               in round64 (if neg then - v else v))))"

text \<open>The decimal digits of an integer that is not negative.\<close>

function dec_str :: "int \<Rightarrow> string" where
  "dec_str i =
     (if i < 10 then [digit_chars ! nat i]
      else dec_str (i div 10) @ [digit_chars ! nat (i mod 10)])"
  by pat_completeness auto
termination
  by (relation "measure nat") auto

declare dec_str.simps [simp del]

text \<open>\<^verbatim>\<open>String(n)\<close> for an integer, in decimal (the code's text up to \<open>10\<^sup>2\<^sup>1\<close>).\<close>

definition String_int :: "int \<Rightarrow> string" where
  "String_int i = (if i < 0 then CHR ''-'' # dec_str (- i) else dec_str i)"

text \<open>
  \<^verbatim>\<open>String(n)\<close> for a Number (Number::toString): the shortest run of decimal digits
  \<open>s\<close>, of \<open>k\<close> digits, with an exponent \<open>n\<close> such that \<open>s \<times> 10\<^sup>n\<^sup>-\<^sup>k\<close> rounds to the
  value; of two such runs the nearer one; written without an exponent when
  \<open>-6 < n \<le> 21\<close>, and as \<^verbatim>\<open>d.ddde+x\<close> otherwise.
\<close>

definition pow10 :: "int \<Rightarrow> rat" where
  "pow10 e = (if 0 \<le> e then 10 ^ nat e else 1 / 10 ^ nat (- e))"

text \<open>The exponent \<open>l\<close> with \<open>10\<^sup>l \<le> a < 10\<^sup>l\<^sup>+\<^sup>1\<close>, for a positive \<open>a\<close>.\<close>

definition ilog10 :: "rat \<Rightarrow> int" where
  "ilog10 a =
     (let l0 = ilog2 a * 30103 div 100000
      in if a < pow10 l0 then l0 - 1 else if a < pow10 (l0 + 1) then l0 else l0 + 1)"

text \<open>
  A run of \<open>k\<close> digits for the value \<open>q\<close>, when \<open>10\<^sup>N\<^sup>-\<^sup>1 \<le> q < 10\<^sup>N\<close>: the integer below
  or above \<open>q \<times> 10\<^sup>k\<^sup>-\<^sup>N\<close> that rounds back to \<open>q\<close>, the nearer one (the even one) when
  both do.
\<close>

definition digits_candidate :: "rat \<Rightarrow> int \<Rightarrow> int \<Rightarrow> int option" where
  "digits_candidate q N k =
     (let x = q * pow10 (k - N);
          lo = \<lfloor>x\<rfloor>;
          hi = lo + 1;
          ok_lo = (round64 (of_int lo * pow10 (N - k)) = Finite q);
          ok_hi = (round64 (of_int hi * pow10 (N - k)) = Finite q)
      in if ok_lo \<and> ok_hi then
           Some (if x - of_int lo < of_int hi - x then lo
                 else if of_int hi - x < x - of_int lo then hi
                 else if even lo then lo else hi)
         else if ok_lo then Some lo
         else if ok_hi then Some hi
         else None)"

text \<open>
  The first \<open>k\<close>, counted up, that has a run of digits; seventeen digits are enough
  for every binary64 value.
\<close>

fun shortest_digits :: "nat \<Rightarrow> int \<Rightarrow> rat \<Rightarrow> int \<Rightarrow> int \<times> int" where
  "shortest_digits 0 k q N = (rne (q * pow10 (17 - N)), 17)"
| "shortest_digits (Suc fuel) k q N =
     (case digits_candidate q N k of
        Some c \<Rightarrow> (c, k)
      | None \<Rightarrow> shortest_digits fuel (k + 1) q N)"

definition String_pos :: "rat \<Rightarrow> string" where
  "String_pos q =
     (let N = ilog10 q + 1;
          (c, k) = shortest_digits 17 1 q N;
          s = (if c = 10 ^ nat k then 10 ^ nat (k - 1) else c);
          n = (if c = 10 ^ nat k then N + 1 else N);
          ds = dec_str s;
          kk = int (length ds)
      in if kk \<le> n \<and> n \<le> 21 then ds @ replicate (nat (n - kk)) CHR ''0''
         else if 0 < n \<and> n \<le> 21 then take (nat n) ds @ ''.'' @ drop (nat n) ds
         else if - 6 < n \<and> n \<le> 0 then ''0.'' @ replicate (nat (- n)) CHR ''0'' @ ds
         else
           (let e = n - 1;
                sg = (if e < 0 then CHR ''-'' else CHR ''+'')
            in if kk = 1 then ds @ ''e'' @ [sg] @ dec_str \<bar>e\<bar>
               else hd ds # ''.'' @ tl ds @ ''e'' @ [sg] @ dec_str \<bar>e\<bar>))"

fun String_num :: "jsnum \<Rightarrow> string" where
  "String_num (Finite q) =
     (case round64 q of
        Finite d \<Rightarrow>
          if d = 0 then ''0''
          else if d < 0 then CHR ''-'' # String_pos (- d)
          else String_pos d
      | Infinity \<Rightarrow> ''Infinity''
      | NegInfinity \<Rightarrow> ''-Infinity''
      | NaN \<Rightarrow> ''NaN'')"
| "String_num Infinity = ''Infinity''"
| "String_num NegInfinity = ''-Infinity''"
| "String_num NaN = ''NaN''"

text \<open>\<^verbatim>\<open>s.split(c)\<close> for a one-character separator: never an empty list.\<close>

fun split :: "char \<Rightarrow> string \<Rightarrow> string list" where
  "split c [] = [[]]"
| "split c (x # xs) =
     (if x = c then [] # split c xs
      else (case split c xs of
              [] \<Rightarrow> [[x]]
            | w # ws \<Rightarrow> (x # w) # ws))"

text \<open>\<^verbatim>\<open>s.replace(a, b)\<close> for one-character strings: only the first \<open>a\<close> is replaced.\<close>

fun replace :: "char \<Rightarrow> char \<Rightarrow> string \<Rightarrow> string" where
  "replace a b [] = []"
| "replace a b (x # xs) = (if x = a then b # xs else x # replace a b xs)"

text \<open>\<^verbatim>\<open>s.padStart(n, c)\<close> for a one-character pad string.\<close>

definition padStart :: "nat \<Rightarrow> char \<Rightarrow> string \<Rightarrow> string" where
  "padStart n c s = replicate (n - length s) c @ s"

subsection \<open>Dates\<close>

text \<open>
  A Date holds a time value: milliseconds from 1970-01-01T00:00:00Z, or NaN (an
  invalid Date), here \<open>None\<close>. Days are counted in the proleptic Gregorian calendar.
\<close>

definition msPerDay :: int where
  "msPerDay = 86400000"

text \<open>The number of the day \<open>y-m-d\<close> (month 1 to 12), counted from 1970-01-01.\<close>

definition days_from_civil :: "int \<Rightarrow> int \<Rightarrow> int \<Rightarrow> int" where
  "days_from_civil y m d =
     (let y1 = (if m \<le> 2 then y - 1 else y);
          era = y1 div 400;
          yoe = y1 - era * 400;
          mp = (if m > 2 then m - 3 else m + 9);
          doy = (153 * mp + 2) div 5 + d - 1;
          doe = yoe * 365 + yoe div 4 - yoe div 100 + doy
      in era * 146097 + doe - 719468)"

text \<open>The year, month (1 to 12) and day of a day number.\<close>

definition civil_from_days :: "int \<Rightarrow> int \<times> int \<times> int" where
  "civil_from_days z =
     (let z1 = z + 719468;
          era = z1 div 146097;
          doe = z1 - era * 146097;
          yoe = (doe - doe div 1460 + doe div 36524 - doe div 146096) div 365;
          doy = doe - (365 * yoe + yoe div 4 - yoe div 100);
          mp = (5 * doy + 2) div 153;
          d = doy - (153 * mp + 2) div 5 + 1;
          m = (if mp < 10 then mp + 3 else mp - 9);
          y = yoe + era * 400
      in (if m \<le> 2 then y + 1 else y, m, d))"

text \<open>
  The two conversions within one era of 400 years, for the facts about them: the day
  of the era of the first day of a month, and the year of the era, month and day of a
  day of the era.
\<close>

definition doe_of :: "int \<Rightarrow> int \<Rightarrow> int" where
  "doe_of yoe m =
     yoe * 365 + yoe div 4 - yoe div 100 + (153 * (if m > 2 then m - 3 else m + 9) + 2) div 5"

definition civil_of_doe :: "int \<Rightarrow> int \<times> int \<times> int" where
  "civil_of_doe doe =
     (let yoe = (doe - doe div 1460 + doe div 36524 - doe div 146096) div 365;
          doy = doe - (365 * yoe + yoe div 4 - yoe div 100);
          mp = (5 * doy + 2) div 153;
          d = doy - (153 * mp + 2) div 5 + 1;
          m = (if mp < 10 then mp + 3 else mp - 9)
      in (yoe, m, d))"

text \<open>Month \<open>m\<close> of the year \<open>yoe\<close> of an era is found again from its first day.\<close>

definition era_ok :: "int \<Rightarrow> int \<Rightarrow> bool" where
  "era_ok yoe m =
     (0 \<le> doe_of yoe m \<and> doe_of yoe m < 146097 \<and>
      civil_of_doe (doe_of yoe m) = (yoe, m, 1))"

text \<open>TimeClip: a time value beyond \<open>8.64 \<times> 10\<^sup>1\<^sup>5\<close> ms in either direction is NaN.\<close>

definition TimeClip :: "int \<Rightarrow> int option" where
  "TimeClip t = (if \<bar>t\<bar> \<le> 8640000000000000 then Some t else None)"

text \<open>
  \<^verbatim>\<open>Date.UTC(y, mi, d)\<close> with a month index \<open>mi\<close> counted from 0: a year from 0 to 99
  means 1900 + y, and a month index from 12 on carries into the year.
\<close>

definition Date_UTC :: "int \<Rightarrow> int \<Rightarrow> int \<Rightarrow> int option" where
  "Date_UTC y mi d =
     (let yr = (if 0 \<le> y \<and> y \<le> 99 then 1900 + y else y);
          ym = yr + mi div 12;
          mn = mi mod 12
      in TimeClip ((days_from_civil ym (mn + 1) 1 + (d - 1)) * msPerDay))"

definition getUTCFullYear :: "int \<Rightarrow> int" where
  "getUTCFullYear t = fst (civil_from_days (t div msPerDay))"

text \<open>\<^verbatim>\<open>getUTCMonth()\<close>: the month index, counted from 0.\<close>

definition getUTCMonth :: "int \<Rightarrow> int" where
  "getUTCMonth t = fst (snd (civil_from_days (t div msPerDay))) - 1"

definition getUTCDate :: "int \<Rightarrow> int" where
  "getUTCDate t = snd (snd (civil_from_days (t div msPerDay)))"

definition monthNames :: "string list" where
  "monthNames =
     [''January'', ''February'', ''March'', ''April'', ''May'', ''June'', ''July'',
      ''August'', ''September'', ''October'', ''November'', ''December'']"

text \<open>
  \<^verbatim>\<open>toLocaleString('default', { month: 'long', year: 'numeric' })\<close> in the locale en-US
  (the locale of the labels in the specification, as in "September 2025"), for a Date
  read in a time zone \<open>off\<close> minutes east of UTC (\<open>off = 0\<close> for \<^verbatim>\<open>timeZone: 'UTC'\<close>).
  An invalid Date prints as \<^verbatim>\<open>Invalid Date\<close>.
\<close>

definition toLocaleString_month_year :: "int \<Rightarrow> int option \<Rightarrow> string" where
  "toLocaleString_month_year off d =
     (case d of
        None \<Rightarrow> ''Invalid Date''
      | Some t \<Rightarrow>
          monthNames ! nat (getUTCMonth (t + off * 60000)) @ '' '' @
          String_int (getUTCFullYear (t + off * 60000)))"

text \<open>
  \<^verbatim>\<open>toISOString()\<close> of a valid time value: \<^verbatim>\<open>YYYY-MM-DDTHH:mm:ss.sssZ\<close>, with a signed
  six-digit year outside 0 to 9999.
\<close>

definition iso_year :: "int \<Rightarrow> string" where
  "iso_year y =
     (if 0 \<le> y \<and> y \<le> 9999 then padStart 4 CHR ''0'' (dec_str y)
      else (if y < 0 then CHR ''-'' else CHR ''+'') # padStart 6 CHR ''0'' (dec_str \<bar>y\<bar>))"

definition pad_int :: "nat \<Rightarrow> int \<Rightarrow> string" where
  "pad_int n i = padStart n CHR ''0'' (String_int i)"

definition toISOString :: "int \<Rightarrow> string" where
  "toISOString t =
     (let ms = t mod msPerDay in
      iso_year (getUTCFullYear t) @ ''-'' @ pad_int 2 (getUTCMonth t + 1) @ ''-'' @
      pad_int 2 (getUTCDate t) @ ''T'' @ pad_int 2 (ms div 3600000) @ '':'' @
      pad_int 2 (ms div 60000 mod 60) @ '':'' @ pad_int 2 (ms div 1000 mod 60) @ ''.'' @
      pad_int 3 (ms mod 1000) @ ''Z'')"

text \<open>\<^verbatim>\<open>s.slice(0, n)\<close>.\<close>

definition slice0 :: "nat \<Rightarrow> string \<Rightarrow> string" where
  "slice0 n s = take n s"

subsection \<open>The host\<close>

text \<open>
  What the component reads from its JavaScript host: the clock (\<^verbatim>\<open>Date.now()\<close>,
  always a valid time value), the offset of local time from UTC in minutes (positive
  east of Greenwich), and \<^verbatim>\<open>new Date(s)\<close> for a string, whose result for text that is
  not in the ISO format ECMAScript leaves to the implementation: the time value, or
  \<open>None\<close> for an invalid Date.
\<close>

record host =
  now :: int
  tzOffset :: int
  Date_parse :: "string \<Rightarrow> int option"

text \<open>
  A parser for concrete runs. It reads a label \<^verbatim>\<open>Month YYYY\<close> (an English month name,
  one space, a year of at least three digits) as the first instant of that month in
  local time, which is how V8 (Chrome, Node.js) reads such text, and takes every other
  string as invalid.
\<close>

definition parse_month_label :: "int \<Rightarrow> string \<Rightarrow> int option" where
  "parse_month_label off s =
     (case split CHR '' '' s of
        [mn, ys] \<Rightarrow>
          if mn \<in> set monthNames \<and> 3 \<le> length ys \<and> list_all is_digit ys then
            TimeClip
              (days_from_civil (digits_val ys) (int (index_of mn monthNames) + 1) 1
                 * msPerDay - off * 60000)
          else None
      | _ \<Rightarrow> None)"

definition label_host :: "int \<Rightarrow> int \<Rightarrow> host" where
  "label_host t off = \<lparr>now = t, tzOffset = off, Date_parse = parse_month_label off\<rparr>"

subsection \<open>The data\<close>

datatype Status = Pending | Paid

text \<open>
  Modelled from the spec: the type \<^verbatim>\<open>PayrollRecord\<close> is declared in \<^verbatim>\<open>../../types\<close>,
  which is not among the sources. Its fields are the ones the component reads and
  writes: an identifier, the employee's integer id, the month label, four amounts and
  the status. The field \<^verbatim>\<open>id\<close> is \<open>rec_id\<close> here.
\<close>

record PayrollRecord =
  rec_id :: string
  employeeId :: int
  month :: string
  basicSalary :: jsnum
  allowances :: jsnum
  deductions :: jsnum
  netSalary :: jsnum
  status :: Status

text \<open>
  Modelled from the spec: the type \<^verbatim>\<open>Employee\<close> is declared in \<^verbatim>\<open>../../types\<close> too; the
  component reads its \<^verbatim>\<open>id\<close> (here \<open>emp_id\<close>), \<^verbatim>\<open>name\<close> and \<^verbatim>\<open>department\<close>.
\<close>

record Employee =
  emp_id :: int
  name :: string
  department :: string

text \<open>
  The props, without the two callbacks: \<^verbatim>\<open>onSave\<close> is modelled by the value the Save
  click returns, and \<^verbatim>\<open>onClose\<close> changes nothing the component owns.
\<close>

record Props =
  isOpen :: bool
  employees :: "Employee list"
  initialRecord :: "PayrollRecord option"

text \<open>The five \<^verbatim>\<open>useState\<close> cells; the cell \<^verbatim>\<open>record\<close> is \<open>draft\<close> here.\<close>

record State =
  draft :: PayrollRecord
  basicInput :: string
  allowancesInput :: string
  deductionsInput :: string
  monthInput :: string

subsection \<open>The component\<close>

text \<open>
  \<^verbatim>\<open>new Date().toLocaleString('default', { month: 'long', year: 'numeric' })\<close>: the label
  of the current month in local time.
\<close>

definition current_label :: "host \<Rightarrow> string" where
  "current_label h = toLocaleString_month_year (tzOffset h) (Some (now h))"

text \<open>\<^verbatim>\<open>emptyRecord(employeeId?, month?)\<close>, lines 13 to 22.\<close>

definition emptyRecord :: "host \<Rightarrow> int option \<Rightarrow> string option \<Rightarrow> PayrollRecord" where
  "emptyRecord h employeeId_arg month_arg =
     \<lparr>rec_id = ''payroll-new-'' @ String_int (now h),
      employeeId = (case employeeId_arg of None \<Rightarrow> 0 | Some e \<Rightarrow> e),
      month = (case month_arg of None \<Rightarrow> current_label h | Some m \<Rightarrow> m),
      basicSalary = Finite 0,
      allowances = Finite 0,
      deductions = Finite 0,
      netSalary = Finite 0,
      status = Pending\<rparr>"

text \<open>
  \<^verbatim>\<open>labelFromYm\<close>, lines 31 to 42. The two first pieces of \<^verbatim>\<open>ym.split('-')\<close> are read
  with \<^verbatim>\<open>parseInt\<close>; a missing piece, NaN or 0 gives the current label. Nothing in the
  \<^verbatim>\<open>try\<close> block can throw, so the \<^verbatim>\<open>catch\<close> branch is never taken.
\<close>

definition labelFromYm :: "host \<Rightarrow> string \<Rightarrow> string" where
  "labelFromYm h ym =
     (case map parseInt (split CHR ''-'' ym) of
        Some y # Some m # rest \<Rightarrow>
          if y = 0 \<or> m = 0 then current_label h
          else toLocaleString_month_year 0 (Date_UTC y (m - 1) 1)
      | _ \<Rightarrow> current_label h)"

text \<open>
  \<^verbatim>\<open>ymFromLabel\<close>, lines 44 to 57: the UTC year and month of \<^verbatim>\<open>new Date(label)\<close>, or the
  empty string for an invalid Date. Here too the \<^verbatim>\<open>catch\<close> branch is never taken.
\<close>

definition ymFromLabel :: "host \<Rightarrow> string \<Rightarrow> string" where
  "ymFromLabel h label =
     (case Date_parse h label of
        None \<Rightarrow> []
      | Some t \<Rightarrow>
          String_int (getUTCFullYear t) @ ''-'' @
          padStart 2 CHR ''0'' (String_int (getUTCMonth t + 1)))"

text \<open>\<^verbatim>\<open>initialRecord ?? emptyRecord()\<close>.\<close>

definition init_record :: "host \<Rightarrow> Props \<Rightarrow> PayrollRecord" where
  "init_record h props =
     (case initialRecord props of None \<Rightarrow> emptyRecord h None None | Some r \<Rightarrow> r)"

text \<open>The initial values of the five \<^verbatim>\<open>useState\<close> cells, lines 25 to 29.\<close>

definition initial_state :: "host \<Rightarrow> Props \<Rightarrow> State" where
  "initial_state h props =
     \<lparr>draft = init_record h props, basicInput = [], allowancesInput = [],
      deductionsInput = [], monthInput = []\<rparr>"

text \<open>\<^verbatim>\<open>n ? String(n) : ''\<close>, the text of an amount input after a reset.\<close>

definition input_text :: "jsnum \<Rightarrow> string" where
  "input_text n = (if truthy n then String_num n else [])"

text \<open>
  The effect of lines 59 to 67, run after the first render and whenever
  \<^verbatim>\<open>initialRecord\<close> or \<^verbatim>\<open>isOpen\<close> changes: five setter calls on the state.
\<close>

definition init_effect :: "host \<Rightarrow> Props \<Rightarrow> State \<Rightarrow> State" where
  "init_effect h props s =
     (let init = init_record h props;
          s1 = s\<lparr>draft := init\<rparr>;
          s2 = s1\<lparr>basicInput := input_text (basicSalary init)\<rparr>;
          s3 = s2\<lparr>allowancesInput := input_text (allowances init)\<rparr>;
          s4 = s3\<lparr>deductionsInput := input_text (deductions init)\<rparr>;
          initYm = (if ymFromLabel h (month init) \<noteq> [] then ymFromLabel h (month init)
                    else slice0 7 (toISOString (now h)))
      in s4\<lparr>monthInput := initYm\<rparr>)"

text \<open>\<^verbatim>\<open>recomputeNet\<close>, lines 71 to 73.\<close>

definition recomputeNet :: "jsnum \<Rightarrow> jsnum \<Rightarrow> jsnum \<Rightarrow> jsnum" where
  "recomputeNet basic allowances' deductions' =
     Math_max (Finite 0) (js_sub (js_add basic allowances') deductions')"

text \<open>The employee select, line 93: \<^verbatim>\<open>parseInt(e.target.value, 10) || 0\<close>.\<close>

definition onChange_employee :: "string \<Rightarrow> State \<Rightarrow> State" where
  "onChange_employee v s =
     s\<lparr>draft := (draft s)\<lparr>employeeId := (case parseInt v of None \<Rightarrow> 0 | Some n \<Rightarrow> n)\<rparr>\<rparr>"

text \<open>The month picker, lines 107 to 111.\<close>

definition onChange_month :: "host \<Rightarrow> string \<Rightarrow> State \<Rightarrow> State" where
  "onChange_month h ym s =
     (let s1 = s\<lparr>monthInput := ym\<rparr>
      in s1\<lparr>draft := (draft s1)\<lparr>month := labelFromYm h ym\<rparr>\<rparr>)"

text \<open>\<^verbatim>\<open>val === '' ? 0 : parseFloat(val) || 0\<close>, lines 124, 140 and 156.\<close>

definition amount_of :: "string \<Rightarrow> jsnum" where
  "amount_of val =
     (if val = [] then Finite 0
      else if truthy (parseFloat val) then parseFloat val else Finite 0)"

text \<open>The three amount inputs, lines 121 to 126, 137 to 142 and 153 to 158.\<close>

definition onChange_basic :: "string \<Rightarrow> State \<Rightarrow> State" where
  "onChange_basic val s =
     (let s1 = s\<lparr>basicInput := val\<rparr>;
          basic = amount_of val;
          prev = draft s1
      in s1\<lparr>draft := prev\<lparr>basicSalary := basic,
           netSalary := recomputeNet basic (allowances prev) (deductions prev)\<rparr>\<rparr>)"

definition onChange_allowances :: "string \<Rightarrow> State \<Rightarrow> State" where
  "onChange_allowances val s =
     (let s1 = s\<lparr>allowancesInput := val\<rparr>;
          allowances' = amount_of val;
          prev = draft s1
      in s1\<lparr>draft := prev\<lparr>allowances := allowances',
           netSalary := recomputeNet (basicSalary prev) allowances' (deductions prev)\<rparr>\<rparr>)"

definition onChange_deductions :: "string \<Rightarrow> State \<Rightarrow> State" where
  "onChange_deductions val s =
     (let s1 = s\<lparr>deductionsInput := val\<rparr>;
          deductions' = amount_of val;
          prev = draft s1
      in s1\<lparr>draft := prev\<lparr>deductions := deductions',
           netSalary := recomputeNet (basicSalary prev) (allowances prev) deductions'\<rparr>\<rparr>)"

text \<open>The status select, line 167.\<close>

definition onChange_status :: "Status \<Rightarrow> State \<Rightarrow> State" where
  "onChange_status st s = s\<lparr>draft := (draft s)\<lparr>status := st\<rparr>\<rparr>"

text \<open>
  \<^verbatim>\<open>employeeMap\<close>, line 69: a \<^verbatim>\<open>Map\<close> built from the pairs of id and employee, in
  which a later pair with the same id replaces an earlier one.
\<close>

definition employeeMap :: "Props \<Rightarrow> int \<Rightarrow> Employee option" where
  "employeeMap props = map_of (rev (map (\<lambda>e. (emp_id e, e)) (employees props)))"

text \<open>
  The Save button's \<^verbatim>\<open>onClick\<close>, lines 188 to 193: the record \<^verbatim>\<open>onSave\<close> is called
  with, or \<open>None\<close> when the handler returns before the call.
\<close>

definition onClick_save :: "Props \<Rightarrow> State \<Rightarrow> PayrollRecord option" where
  "onClick_save props s =
     (if employeeId (draft s) = 0 \<or> employeeMap props (employeeId (draft s)) = None then None
      else Some ((draft s)\<lparr>rec_id :=
             (case initialRecord props of
                Some r0 \<Rightarrow> rec_id r0
              | None \<Rightarrow>
                  ''payroll-'' @ String_int (employeeId (draft s)) @ ''-'' @
                  replace CHR '' '' CHR ''-'' (month (draft s)))\<rparr>))"

text \<open>The Save button's \<^verbatim>\<open>disabled\<close> attribute, line 194.\<close>

definition save_disabled :: "State \<Rightarrow> bool" where
  "save_disabled s = (employeeId (draft s) = 0 \<or> monthInput s = [])"

text \<open>
  A click on Save: the dialog renders nothing when it is not open (line 75), a
  disabled button dispatches no click, and otherwise \<^verbatim>\<open>onClick\<close> runs.
\<close>

definition click_save :: "Props \<Rightarrow> State \<Rightarrow> PayrollRecord option" where
  "click_save props s =
     (if isOpen props \<and> \<not> save_disabled s then onClick_save props s else None)"

subsection \<open>Runs of the dialog\<close>

text \<open>
  The change events of the form, each with the value of its target. An event happens
  at a state of the host (the clock moves between events).
\<close>

datatype event =
    SelectEmployee string
  | ChangeMonth string
  | ChangeBasic string
  | ChangeAllowances string
  | ChangeDeductions string
  | ChangeStatus Status

fun step :: "host \<times> event \<Rightarrow> State \<Rightarrow> State" where
  "step (h, SelectEmployee v) s = onChange_employee v s"
| "step (h, ChangeMonth ym) s = onChange_month h ym s"
| "step (h, ChangeBasic val) s = onChange_basic val s"
| "step (h, ChangeAllowances val) s = onChange_allowances val s"
| "step (h, ChangeDeductions val) s = onChange_deductions val s"
| "step (h, ChangeStatus st) s = onChange_status st s"

fun run :: "(host \<times> event) list \<Rightarrow> State \<Rightarrow> State" where
  "run [] s = s"
| "run (he # hes) s = run hes (step he s)"


text \<open>The state of the dialog after it opened and the events \<open>hes\<close> happened.\<close>

definition opened :: "host \<Rightarrow> Props \<Rightarrow> (host \<times> event) list \<Rightarrow> State" where
  "opened h props hes = run hes (init_effect h props (initial_state h props))"


subsection \<open>Concrete hosts, records and runs\<close>

text \<open>
  Two hosts whose clock reads 2026-11-02T06:30:00.123Z: one at UTC+05:30, one at UTC.
\<close>

definition demo_host :: host where
  "demo_host = label_host 1793601000123 330"

definition utc_host :: host where
  "utc_host = label_host 1793601000123 0"

definition asha :: Employee where
  "asha = \<lparr>emp_id = 7, name = ''Asha'', department = ''Finance''\<rparr>"

text \<open>An existing record whose net salary is not the one its amounts give.\<close>

definition stale_record :: PayrollRecord where
  "stale_record =
     \<lparr>rec_id = ''payroll-7-September-2025'', employeeId = 7, month = ''September 2025'',
      basicSalary = Finite 5000, allowances = Finite 200, deductions = Finite 100,
      netSalary = Finite 0, status = Pending\<rparr>"

text \<open>An existing record whose month is no date, and one whose month is empty.\<close>

definition tbd_record :: PayrollRecord where
  "tbd_record =
     \<lparr>rec_id = ''payroll-7-TBD'', employeeId = 7, month = ''TBD'',
      basicSalary = Finite 5000, allowances = Finite 200, deductions = Finite 100,
      netSalary = Finite 5100, status = Pending\<rparr>"


definition edit_props :: "PayrollRecord \<Rightarrow> Props" where
  "edit_props r = \<lparr>isOpen = True, employees = [asha], initialRecord = Some r\<rparr>"

definition create_props :: Props where
  "create_props = \<lparr>isOpen = True, employees = [asha], initialRecord = None\<rparr>"

text \<open>Creating a record: the employee is chosen and the three amounts are typed.\<close>

definition demo_events :: "(host \<times> event) list" where
  "demo_events =
     [(demo_host, SelectEmployee ''7''), (demo_host, ChangeBasic ''5000''),
      (demo_host, ChangeAllowances ''200''), (demo_host, ChangeDeductions ''6000'')]"

definition demo_saved :: PayrollRecord where
  "demo_saved =
     \<lparr>rec_id = ''payroll-7-November-2026'', employeeId = 7, month = ''November 2026'',
      basicSalary = Finite 5000, allowances = Finite 200, deductions = Finite 6000,
      netSalary = Finite 0, status = Pending\<rparr>"



text \<open>Editing \<open>stale_record\<close>: a new basic salary, and the status set to Paid.\<close>

definition edit_events :: "(host \<times> event) list" where
  "edit_events = [(utc_host, ChangeBasic ''6000''), (utc_host, ChangeStatus Paid)]"

definition edit_saved :: PayrollRecord where
  "edit_saved =
     \<lparr>rec_id = ''payroll-7-September-2025'', employeeId = 7, month = ''September 2025'',
      basicSalary = Finite 6000, allowances = Finite 200, deductions = Finite 100,
      netSalary = Finite 6100, status = Paid\<rparr>"

section \<open>Facts about the built-ins\<close>

lemma dec_str_nonempty: "dec_str i \<noteq> []"
  by (subst dec_str.simps) simp

lemma digit_chars_nth: "k < 10 \<Longrightarrow> digit_chars ! k \<in> set digit_chars"
  by (rule nth_mem) (simp add: digit_chars_def)

text \<open>A decimal numeral starts with a digit: by induction along \<open>dec_str\<close>.\<close>

lemma hd_dec_str_digit: "hd (dec_str i) \<in> set digit_chars"
proof (induction i rule: dec_str.induct)
  case (1 i)
  show ?case
  proof (cases "i < 10")
    case True
    then show ?thesis
      by (subst dec_str.simps) (simp add: digit_chars_nth)
  next
    case False
    with 1 have "hd (dec_str (i div 10)) \<in> set digit_chars" by simp
    with False show ?thesis
      by (subst dec_str.simps) (simp add: dec_str_nonempty)
  qed
qed

lemma String_int_nonempty: "String_int i \<noteq> []"
  by (simp add: String_int_def dec_str_nonempty)

lemma hd_String_int: "hd (String_int i) \<in> set (CHR ''-'' # digit_chars)"
  using hd_dec_str_digit [of i] by (simp add: String_int_def)

text \<open>No printed integer starts with the letter n.\<close>

lemma String_int_not_new: "String_int i @ rest \<noteq> ''new-'' @ other"
proof
  assume eq: "String_int i @ rest = ''new-'' @ other"
  obtain c cs where cs: "String_int i = c # cs"
    using String_int_nonempty [of i] by (cases "String_int i") auto
  with eq have "c = CHR ''n''" by simp
  moreover from cs hd_String_int [of i] have "c \<in> set (CHR ''-'' # digit_chars)" by simp
  ultimately show False by (simp add: digit_chars_def)
qed

lemma padStart_nonempty: "s \<noteq> [] \<Longrightarrow> padStart n c s \<noteq> []"
  by (simp add: padStart_def)

lemma iso_year_nonempty: "iso_year y \<noteq> []"
  by (simp add: iso_year_def padStart_nonempty dec_str_nonempty)

lemma slice_toISOString_nonempty: "slice0 7 (toISOString t) \<noteq> []"
proof -
  obtain c cs where "iso_year (getUTCFullYear t) = c # cs"
    using iso_year_nonempty [of "getUTCFullYear t"] by (cases "iso_year (getUTCFullYear t)") auto
  then show ?thesis
    by (simp add: slice0_def toISOString_def Let_def)
qed


subsection \<open>Binary64 values\<close>

text \<open>
  The sum of the values of \<^verbatim>\<open>0.1\<close> and \<^verbatim>\<open>0.2\<close> is the value that prints as
  \<^verbatim>\<open>0.30000000000000004\<close>; \<^verbatim>\<open>1234.56 + 78.9 - 12.34\<close> prints as \<^verbatim>\<open>1301.1200000000001\<close>.
\<close>

lemma binary64_sums:
  "js_add (parseFloat ''0.1'') (parseFloat ''0.2'') = Finite (1351079888211149 / 4503599627370496) \<and>
   js_sub (js_add (parseFloat ''1234.56'') (parseFloat ''78.9'')) (parseFloat ''12.34'') =
     Finite (5722386276527637 / 4398046511104)"
  by code_simp

lemma String_num_sum: "String_num (Finite (1351079888211149 / 4503599627370496)) = ''0.30000000000000004''"
  by code_simp

lemma String_num_difference: "String_num (Finite (5722386276527637 / 4398046511104)) = ''1301.1200000000001''"
  by code_simp

lemma String_num_forms:
  "String_num (Finite 5000) = ''5000'' \<and> String_num (Finite 12.5) = ''12.5'' \<and>
   String_num (Finite 1000000000000000000000) = ''1e+21'' \<and>
   String_num (Finite (1 / 10000000)) = ''1e-7''"
  by code_simp

text \<open>A literal beyond the largest finite value is an infinity.\<close>

lemma parseFloat_overflow: "parseFloat ''2e308'' = Infinity"
  by code_simp

text \<open>White space that is not ASCII is skipped as well: U+00A0 and U+FEFF.\<close>

lemma unicode_white_space:
  "parseInt [CHR 0xC2, CHR 0xA0, CHR '' '', CHR ''4'', CHR ''2''] = Some 42 \<and>
   parseFloat (CHR 0xEF # CHR 0xBB # CHR 0xBF # ''1.5x'') = Finite (3 / 2)"
  by code_simp

subsection \<open>Decimal numerals\<close>

text \<open>Printing an integer that is not negative and reading the digits give it back.\<close>

lemma index_of_nth: "distinct xs \<Longrightarrow> k < length xs \<Longrightarrow> index_of (xs ! k) xs = k"
proof (induction xs arbitrary: k)
  case Nil
  then show ?case by simp
next
  case (Cons x xs)
  show ?case
  proof (cases k)
    case 0
    then show ?thesis by simp
  next
    case (Suc j)
    with Cons.prems have "xs ! j \<in> set xs" by simp
    with Cons.prems have "x \<noteq> xs ! j" by auto
    with Suc Cons show ?thesis by simp
  qed
qed

lemma digit_val_nth: "k < 10 \<Longrightarrow> digit_val (digit_chars ! k) = int k"
  unfolding digit_val_def by (subst index_of_nth) (simp_all add: digit_chars_def)

lemma digits_val_snoc: "digits_val (xs @ [c]) = 10 * digits_val xs + digit_val c"
  by (simp add: digits_val_def)

lemma digits_val_dec_str: "0 \<le> i \<Longrightarrow> digits_val (dec_str i) = i"
proof (induction i rule: dec_str.induct)
  case (1 i)
  show ?case
  proof (cases "i < 10")
    case True
    with 1(2) have "digit_val (digit_chars ! nat i) = i"
      by (simp add: digit_val_nth)
    with True show ?thesis
      by (subst dec_str.simps) (simp add: digits_val_def)
  next
    case False
    with 1 have "digits_val (dec_str (i div 10)) = i div 10" by simp
    moreover from 1(2) have "digit_val (digit_chars ! nat (i mod 10)) = i mod 10"
      by (simp add: digit_val_nth)
    ultimately show ?thesis
      using False by (subst dec_str.simps) (simp add: digits_val_snoc)
  qed
qed

lemma dec_str_digits: "list_all is_digit (dec_str i)"
proof (induction i rule: dec_str.induct)
  case (1 i)
  show ?case
  proof (cases "i < 10")
    case True
    then show ?thesis
      by (subst dec_str.simps) (simp add: is_digit_def digit_chars_nth)
  next
    case False
    with 1 have "list_all is_digit (dec_str (i div 10))" by simp
    with False show ?thesis
      by (subst dec_str.simps) (simp add: is_digit_def digit_chars_nth)
  qed
qed

lemma length_dec_str:
  assumes "100 \<le> i"
  shows "3 \<le> length (dec_str i)"
proof -
  from assms have "dec_str i = dec_str (i div 10) @ [digit_chars ! nat (i mod 10)]"
    by (subst dec_str.simps) simp
  moreover from assms have "\<not> i div 10 < 10"
    by linarith
  then have "dec_str (i div 10) =
      dec_str (i div 10 div 10) @ [digit_chars ! nat (i div 10 mod 10)]"
    by (subst dec_str.simps) simp
  moreover have "1 \<le> length (dec_str (i div 10 div 10))"
    using dec_str_nonempty [of "i div 10 div 10"] by (cases "dec_str (i div 10 div 10)") auto
  ultimately show ?thesis by simp
qed

lemma is_digit_zero: "is_digit CHR ''0''"
  by (simp add: is_digit_def digit_chars_def)

lemma zeros_digits: "list_all is_digit (replicate k CHR ''0'')"
  by (induction k) (simp_all add: is_digit_zero)

lemma padStart_digits: "list_all is_digit ds \<Longrightarrow> list_all is_digit (padStart n CHR ''0'' ds)"
  by (simp add: padStart_def zeros_digits)

lemma digits_val_zeros: "digits_val (replicate k CHR ''0'' @ ds) = digits_val ds"
proof -
  have "foldl (\<lambda>a c. 10 * a + digit_val c) 0 (replicate k CHR ''0'') = 0"
    by (induction k) (simp_all add: digit_val_def digit_chars_def)
  then show ?thesis
    by (simp add: digits_val_def)
qed

lemma digits_no_dash:
  assumes "list_all is_digit xs"
  shows "CHR ''-'' \<notin> set xs"
proof
  assume "CHR ''-'' \<in> set xs"
  with assms have "is_digit CHR ''-''"
    by (simp add: list_all_iff)
  then show False
    by (simp add: is_digit_def digit_chars_def)
qed

lemma digits_no_space:
  assumes "list_all is_digit xs"
  shows "CHR '' '' \<notin> set xs"
proof
  assume "CHR '' '' \<in> set xs"
  with assms have "is_digit CHR '' ''"
    by (simp add: list_all_iff)
  then show False
    by (simp add: is_digit_def digit_chars_def)
qed

lemma split_none: "c \<notin> set xs \<Longrightarrow> split c xs = [xs]"
  by (induction xs) auto

lemma split_at: "c \<notin> set xs \<Longrightarrow> c \<notin> set ys \<Longrightarrow> split c (xs @ c # ys) = [xs, ys]"
  by (induction xs) (auto simp: split_none)

lemma ws_prefix_digit:
  assumes "is_digit c"
  shows "ws_prefix (c # r) = None"
proof -
  have leads: "\<forall>w \<in> set ws_seqs. w \<noteq> [] \<and> hd w \<notin> set digit_chars"
    by (simp add: ws_seqs_def digit_chars_def)
  have "\<not> take (length w) (c # r) = w" if "w \<in> set ws_seqs" for w
  proof
    assume pre: "take (length w) (c # r) = w"
    from leads that obtain a w' where w: "w = a # w'" and a: "a \<notin> set digit_chars"
      by (cases w) auto
    from pre w have "c = a" by simp
    with a assms show False
      by (simp add: is_digit_def)
  qed
  then show ?thesis
    by (auto simp: ws_prefix_def find_None_iff)
qed

lemma trimStart_digit: "is_digit c \<Longrightarrow> trimStart (c # r) = c # r"
  by (subst trimStart.simps) (simp add: ws_prefix_digit)

lemma parseInt_digits:
  assumes "ds \<noteq> []" and "list_all is_digit ds"
  shows "parseInt ds = Some (digits_val ds)"
proof -
  obtain c r where ds: "ds = c # r"
    using assms(1) by (cases ds) auto
  with assms(2) have c: "is_digit c" by simp
  then have "trimStart (c # r) = c # r" and "c \<noteq> CHR ''-''" and "c \<noteq> CHR ''+''"
    by (auto simp: trimStart_digit is_digit_def digit_chars_def)
  moreover have "takeWhile is_digit ds = ds"
    using assms(2) by (simp add: takeWhile_eq_all_conv list_all_iff)
  ultimately show ?thesis
    using assms(1) by (simp add: parseInt_def ds)
qed

lemma parseInt_dec_str: "0 \<le> i \<Longrightarrow> parseInt (dec_str i) = Some i"
  by (simp add: parseInt_digits dec_str_nonempty dec_str_digits digits_val_dec_str)

lemma parseInt_pad2: "0 \<le> i \<Longrightarrow> parseInt (padStart 2 CHR ''0'' (dec_str i)) = Some i"
proof -
  assume "0 \<le> i"
  have "padStart 2 CHR ''0'' (dec_str i) \<noteq> []"
    by (simp add: padStart_def dec_str_nonempty)
  then have "parseInt (padStart 2 CHR ''0'' (dec_str i)) =
      Some (digits_val (padStart 2 CHR ''0'' (dec_str i)))"
    by (rule parseInt_digits) (simp add: padStart_digits dec_str_digits)
  also have "digits_val (padStart 2 CHR ''0'' (dec_str i)) = i"
    using \<open>0 \<le> i\<close> by (simp add: padStart_def digits_val_zeros digits_val_dec_str)
  finally show ?thesis .
qed

subsection \<open>The calendar\<close>

text \<open>
  The table of an era, checked year by year in eight parts: within 400 years the day
  of the era determines the year of the era and the month.
\<close>

lemma era_table_0: "list_all (\<lambda>yoe. list_all (era_ok yoe) [1..12]) [0..49]"
  by code_simp

lemma era_table_1: "list_all (\<lambda>yoe. list_all (era_ok yoe) [1..12]) [50..99]"
  by code_simp

lemma era_table_2: "list_all (\<lambda>yoe. list_all (era_ok yoe) [1..12]) [100..149]"
  by code_simp

lemma era_table_3: "list_all (\<lambda>yoe. list_all (era_ok yoe) [1..12]) [150..199]"
  by code_simp

lemma era_table_4: "list_all (\<lambda>yoe. list_all (era_ok yoe) [1..12]) [200..249]"
  by code_simp

lemma era_table_5: "list_all (\<lambda>yoe. list_all (era_ok yoe) [1..12]) [250..299]"
  by code_simp

lemma era_table_6: "list_all (\<lambda>yoe. list_all (era_ok yoe) [1..12]) [300..349]"
  by code_simp

lemma era_table_7: "list_all (\<lambda>yoe. list_all (era_ok yoe) [1..12]) [350..399]"
  by code_simp

lemma era_chunk:
  "list_all (\<lambda>yoe. list_all (era_ok yoe) [1..12]) [lo..hi] \<Longrightarrow>
   lo \<le> yoe \<Longrightarrow> yoe \<le> hi \<Longrightarrow> 1 \<le> m \<Longrightarrow> m \<le> 12 \<Longrightarrow> era_ok yoe m"
  by (simp add: list_all_iff)

lemma era_ok_all:
  assumes "0 \<le> yoe" and "yoe \<le> 399" and "1 \<le> m" and "m \<le> 12"
  shows "era_ok yoe m"
proof -
  from assms(1,2) have "yoe \<le> 49 \<or> 50 \<le> yoe \<and> yoe \<le> 99 \<or> 100 \<le> yoe \<and> yoe \<le> 149 \<or>
      150 \<le> yoe \<and> yoe \<le> 199 \<or> 200 \<le> yoe \<and> yoe \<le> 249 \<or> 250 \<le> yoe \<and> yoe \<le> 299 \<or>
      300 \<le> yoe \<and> yoe \<le> 349 \<or> 350 \<le> yoe"
    by linarith
  then show ?thesis
    using assms
    by (elim disjE conjE)
      (simp_all add: era_chunk [OF era_table_0] era_chunk [OF era_table_1]
        era_chunk [OF era_table_2] era_chunk [OF era_table_3] era_chunk [OF era_table_4]
        era_chunk [OF era_table_5] era_chunk [OF era_table_6] era_chunk [OF era_table_7])
qed

lemma days_from_civil_era:
  "days_from_civil y m 1 =
     (if m \<le> 2 then y - 1 else y) div 400 * 146097 +
     doe_of ((if m \<le> 2 then y - 1 else y) mod 400) m - 719468"
proof -
  have "days_from_civil y m 1 =
     (if m \<le> 2 then y - 1 else y) div 400 * 146097 +
     doe_of ((if m \<le> 2 then y - 1 else y) - (if m \<le> 2 then y - 1 else y) div 400 * 400) m
     - 719468"
    unfolding days_from_civil_def doe_of_def Let_def by (cases "m \<le> 2") simp_all
  then show ?thesis
    by (simp only: minus_div_mult_eq_mod)
qed

lemma civil_from_days_alt:
  "civil_from_days z =
     (let z1 = z + 719468;
          era = z1 div 146097;
          doe = z1 - era * 146097
      in case civil_of_doe doe of (yoe, m, d) \<Rightarrow>
           (if m \<le> 2 then yoe + era * 400 + 1 else yoe + era * 400, m, d))"
  by (simp only: civil_from_days_def civil_of_doe_def Let_def prod.case)

lemma civil_from_days_era:
  assumes "0 \<le> doe" and "doe < 146097"
  shows "civil_from_days (era * 146097 + doe - 719468) =
     (case civil_of_doe doe of (yoe, m, d) \<Rightarrow>
        (if m \<le> 2 then yoe + era * 400 + 1 else yoe + era * 400, m, d))"
proof -
  have z1: "era * 146097 + doe - 719468 + 719468 = era * 146097 + doe"
    by simp
  have e: "(era * 146097 + doe) div 146097 = era"
    using assms by simp
  have d: "era * 146097 + doe - era * 146097 = doe"
    by simp
  show ?thesis
    by (simp only: civil_from_days_alt Let_def z1 e d)
qed

lemma civil_from_days_first:
  assumes "1 \<le> m" and "m \<le> 12"
  shows "civil_from_days (days_from_civil y m 1) = (y, m, 1)"
proof -
  define y1 where "y1 = (if m \<le> 2 then y - 1 else y)"
  have ok: "era_ok (y1 mod 400) m"
    using assms by (intro era_ok_all) simp_all
  then have "civil_from_days (y1 div 400 * 146097 + doe_of (y1 mod 400) m - 719468) =
      (if m \<le> 2 then y1 mod 400 + y1 div 400 * 400 + 1 else y1 mod 400 + y1 div 400 * 400, m, 1)"
    by (simp add: civil_from_days_era era_ok_def)
  also have "y1 mod 400 + y1 div 400 * 400 = y1"
    by simp
  finally show ?thesis
    by (simp add: days_from_civil_era y1_def)
qed

lemma era_bounds:
  assumes "1 \<le> m" and "m \<le> 12"
  shows "0 \<le> doe_of (y mod 400) m" and "doe_of (y mod 400) m < 146097"
  using era_ok_all [of "y mod 400" m] assms by (simp_all add: era_ok_def)

lemma days_from_civil_bounds:
  assumes "1000 \<le> y" and "y \<le> 9999" and "1 \<le> m" and "m \<le> 12"
  shows "- 500000 \<le> days_from_civil y m 1" and "days_from_civil y m 1 \<le> 3000000"
proof -
  define y1 where "y1 = (if m \<le> 2 then y - 1 else y)"
  have days: "days_from_civil y m 1 = y1 div 400 * 146097 + doe_of (y1 mod 400) m - 719468"
    by (simp add: days_from_civil_era y1_def)
  from assms have "999 \<le> y1" and "y1 \<le> 9999"
    by (simp_all add: y1_def)
  then have "2 \<le> y1 div 400" and "y1 div 400 \<le> 24"
    by linarith+
  with era_bounds [OF assms(3,4), of y1] days
  show "- 500000 \<le> days_from_civil y m 1" and "days_from_civil y m 1 \<le> 3000000"
    by linarith+
qed

lemma Date_UTC_first:
  assumes "1000 \<le> y" and "y \<le> 9999" and "1 \<le> m" and "m \<le> 12"
  shows "Date_UTC y (m - 1) 1 = Some (days_from_civil y m 1 * msPerDay)"
proof -
  from assms have "(m - 1) div 12 = 0" and "(m - 1) mod 12 = m - 1"
    by simp_all
  moreover from days_from_civil_bounds [OF assms]
  have "\<bar>days_from_civil y m 1 * 86400000\<bar> \<le> 8640000000000000"
    by linarith
  ultimately show ?thesis
    using assms(1) by (simp add: Date_UTC_def TimeClip_def msPerDay_def)
qed

lemma getters_first:
  assumes "1 \<le> m" and "m \<le> 12" and "0 \<le> k" and "k < msPerDay"
  shows "getUTCFullYear (days_from_civil y m 1 * msPerDay + k) = y"
    and "getUTCMonth (days_from_civil y m 1 * msPerDay + k) = m - 1"
proof -
  from assms(3,4) have "(days_from_civil y m 1 * msPerDay + k) div msPerDay = days_from_civil y m 1"
    by (simp add: msPerDay_def)
  then show "getUTCFullYear (days_from_civil y m 1 * msPerDay + k) = y"
    and "getUTCMonth (days_from_civil y m 1 * msPerDay + k) = m - 1"
    by (simp_all add: getUTCFullYear_def getUTCMonth_def civil_from_days_first [OF assms(1,2)])
qed

lemma month_names:
  assumes "k < 12"
  shows "monthNames ! k \<in> set monthNames" and "CHR '' '' \<notin> set (monthNames ! k)"
    and "index_of (monthNames ! k) monthNames = k"
proof -
  from assms show in_names: "monthNames ! k \<in> set monthNames"
    by (intro nth_mem) (simp add: monthNames_def)
  have "\<forall>mn \<in> set monthNames. CHR '' '' \<notin> set mn"
    by (simp add: monthNames_def)
  with in_names show "CHR '' '' \<notin> set (monthNames ! k)"
    by blast
  from assms show "index_of (monthNames ! k) monthNames = k"
    by (intro index_of_nth) (simp_all add: monthNames_def)
qed

section \<open>Facts about the component\<close>



lemma employeeMap_None:
  "employeeMap props k = None \<longleftrightarrow> k \<notin> emp_id ` set (employees props)"
  by (simp add: employeeMap_def map_of_eq_None_iff image_image)

lemma amount_of_blank: "val = [] \<or> parseFloat val = NaN \<Longrightarrow> amount_of val = Finite 0"
  by (auto simp: amount_of_def)

subsection \<open>The two month conversions\<close>

text \<open>
  For a year from 1000 to 9999 and a month from 1 to 12, \<open>labelFromYm\<close> writes the
  English label of the month; a host that reads such labels as local time and is at
  UTC or west of it (by less than a day) gives the year-month back.
\<close>

lemma labelFromYm_first:
  assumes "1000 \<le> y" and "y \<le> 9999" and "1 \<le> m" and "m \<le> 12"
  shows "labelFromYm h (dec_str y @ ''-'' @ padStart 2 CHR ''0'' (dec_str m)) =
           monthNames ! nat (m - 1) @ '' '' @ dec_str y"
proof -
  have "split CHR ''-'' (dec_str y @ CHR ''-'' # padStart 2 CHR ''0'' (dec_str m)) =
      [dec_str y, padStart 2 CHR ''0'' (dec_str m)]"
    by (intro split_at digits_no_dash padStart_digits dec_str_digits)
  moreover from assms have "parseInt (dec_str y) = Some y"
    and "parseInt (padStart 2 CHR ''0'' (dec_str m)) = Some m"
    by (simp_all add: parseInt_dec_str parseInt_pad2)
  moreover from getters_first [OF assms(3,4), of 0 y]
  have "getUTCFullYear (days_from_civil y m 1 * msPerDay) = y"
    and "getUTCMonth (days_from_civil y m 1 * msPerDay) = m - 1"
    by (simp_all add: msPerDay_def)
  ultimately show ?thesis
    using assms
    by (simp add: labelFromYm_def Date_UTC_first toLocaleString_month_year_def String_int_def)
qed

lemma parse_month_label_first:
  assumes "1000 \<le> y" and "y \<le> 9999" and "1 \<le> m" and "m \<le> 12"
    and "- 1440 < off" and "off \<le> 0"
  shows "parse_month_label off (monthNames ! nat (m - 1) @ '' '' @ dec_str y) =
           Some (days_from_civil y m 1 * msPerDay + (- off * 60000))"
proof -
  from assms have k: "nat (m - 1) < 12"
    by simp
  have "split CHR '' '' (monthNames ! nat (m - 1) @ CHR '' '' # dec_str y) =
      [monthNames ! nat (m - 1), dec_str y]"
    by (intro split_at month_names(2) [OF k] digits_no_space dec_str_digits)
  moreover from assms have "3 \<le> length (dec_str y)"
    by (intro length_dec_str) simp
  moreover from assms have "digits_val (dec_str y) = y"
    by (simp add: digits_val_dec_str)
  moreover from assms have "int (nat (m - 1)) + 1 = m"
    by simp
  moreover from days_from_civil_bounds [OF assms(1-4)] assms(5,6)
  have "\<bar>days_from_civil y m 1 * 86400000 - off * 60000\<bar> \<le> 8640000000000000"
    by linarith
  ultimately show ?thesis
    by (simp add: parse_month_label_def month_names [OF k] dec_str_digits TimeClip_def
        msPerDay_def)
qed

lemma round_trip_at_or_west_of_utc:
  assumes "Date_parse h = parse_month_label (tzOffset h)"
    and "- 1440 < tzOffset h" and "tzOffset h \<le> 0"
    and "1000 \<le> y" and "y \<le> 9999" and "1 \<le> m" and "m \<le> 12"
  shows "ymFromLabel h (labelFromYm h (dec_str y @ ''-'' @ padStart 2 CHR ''0'' (dec_str m))) =
           dec_str y @ ''-'' @ padStart 2 CHR ''0'' (dec_str m)"
proof -
  have label: "labelFromYm h (dec_str y @ ''-'' @ padStart 2 CHR ''0'' (dec_str m)) =
      monthNames ! nat (m - 1) @ '' '' @ dec_str y"
    by (rule labelFromYm_first [OF assms(4-7)])
  have parse: "Date_parse h (monthNames ! nat (m - 1) @ '' '' @ dec_str y) =
      Some (days_from_civil y m 1 * msPerDay + (- tzOffset h * 60000))"
    unfolding assms(1) by (rule parse_month_label_first [OF assms(4-7) assms(2,3)])
  from assms(2,3) have "0 \<le> - tzOffset h * 60000" and "- tzOffset h * 60000 < msPerDay"
    by (simp_all add: msPerDay_def)
  from getters_first [OF assms(6,7) this, of y]
  have "getUTCFullYear (days_from_civil y m 1 * msPerDay + (- tzOffset h * 60000)) = y"
    and "getUTCMonth (days_from_civil y m 1 * msPerDay + (- tzOffset h * 60000)) + 1 = m"
    by simp_all
  with assms(4,6) show ?thesis
    unfolding label ymFromLabel_def parse by (simp add: String_int_def)
qed

text \<open>The year-month of the lemma is written \<^verbatim>\<open>YYYY-MM\<close>.\<close>

lemma year_month_text:
  "dec_str 2025 @ ''-'' @ padStart 2 CHR ''0'' (dec_str 9) = ''2025-09'' \<and>
   dec_str 1000 @ ''-'' @ padStart 2 CHR ''0'' (dec_str 12) = ''1000-12''"
  by code_simp

subsection \<open>The effect\<close>


lemma monthInput_init_effect:
  "monthInput (init_effect h props s) =
     (if ymFromLabel h (month (init_record h props)) \<noteq> []
      then ymFromLabel h (month (init_record h props))
      else slice0 7 (toISOString (now h)))"
  by (simp add: init_effect_def Let_def)

lemma init_effect_explicit:
  "init_effect h props s =
     \<lparr>draft = init_record h props,
      basicInput = input_text (basicSalary (init_record h props)),
      allowancesInput = input_text (allowances (init_record h props)),
      deductionsInput = input_text (deductions (init_record h props)),
      monthInput =
        (if ymFromLabel h (month (init_record h props)) \<noteq> []
         then ymFromLabel h (month (init_record h props))
         else slice0 7 (toISOString (now h)))\<rparr>"
  by (cases s) (simp add: init_effect_def Let_def)



subsection \<open>The Save click\<close>

lemma click_save_SomeD:
  assumes "click_save props s = Some r"
  shows "isOpen props" and "employeeId (draft s) \<noteq> 0" and "monthInput s \<noteq> []"
    and "employeeMap props (employeeId (draft s)) \<noteq> None"
    and "r = (draft s)\<lparr>rec_id :=
           (case initialRecord props of
              Some r0 \<Rightarrow> rec_id r0
            | None \<Rightarrow>
                ''payroll-'' @ String_int (employeeId (draft s)) @ ''-'' @
                replace CHR '' '' CHR ''-'' (month (draft s)))\<rparr>"
  using assms
  by (auto simp: click_save_def save_disabled_def onClick_save_def split: if_splits)

subsection \<open>Invariants of a run\<close>







subsection \<open>Concrete runs\<close>

lemma demo_create_save:
  "click_save create_props (opened demo_host create_props demo_events) = Some demo_saved"
  by code_simp

lemma demo_edit_save:
  "click_save (edit_props stale_record) (opened utc_host (edit_props stale_record) edit_events) =
     Some edit_saved"
  by code_simp




lemma Date_parse_TBD: "Date_parse demo_host ''TBD'' = None"
  by code_simp

lemma now_ym_demo_host: "slice0 7 (toISOString (now demo_host)) = ''2026-11''"
  by code_simp

section \<open>The claims\<close>

subsection \<open>C1: the net salary of a saved record\<close>




subsection \<open>C2: from a year-month to a label and back\<close>

text \<open>
  C2. For a well-formed year-month, \<open>labelFromYm\<close> and then \<open>ymFromLabel\<close> should give
  the year-month again. On a host east of Greenwich they do not: \<^verbatim>\<open>2025-09\<close> becomes
  \<^verbatim>\<open>September 2025\<close>, which \<^verbatim>\<open>new Date\<close> reads as midnight of 1 September in local time,
  that is 31 August 18:30 in UTC at UTC+05:30, and the UTC getters of \<open>ymFromLabel\<close>
  answer \<^verbatim>\<open>2025-08\<close>. On a host at UTC the same year-month comes back, as every
  year-month from 1000-01 to 9999-12 does at UTC and west of it
  (\<open>round_trip_at_or_west_of_utc\<close>). The label is built from a UTC date (line 36:
  "Construct date as UTC to avoid TZ shifts"), and read back through a local one.
\<close>

theorem round_trip_east_of_utc:
  "labelFromYm demo_host ''2025-09'' = ''September 2025'' \<and>
   Date_parse demo_host ''September 2025'' = Some 1756665000000 \<and>
   toISOString 1756665000000 = ''2025-08-31T18:30:00.000Z'' \<and>
   ymFromLabel demo_host (labelFromYm demo_host ''2025-09'') = ''2025-08'' \<and>
   ymFromLabel utc_host (labelFromYm utc_host ''2025-09'') = ''2025-09''"
  by code_simp

text \<open>
  Years below 1000 do not come back on any host: \<^verbatim>\<open>Date.UTC\<close> takes the year 50 for
  1950, and \<open>ymFromLabel\<close> prints the year 100 with three digits.
\<close>

lemma round_trip_small_years:
  "ymFromLabel utc_host (labelFromYm utc_host ''0050-03'') = ''1950-03'' \<and>
   ymFromLabel utc_host (labelFromYm utc_host ''0100-03'') = ''100-03''"
  by code_simp

subsection \<open>C3: when Save can call the callback\<close>

text \<open>
  C3. The save callback is called only when the draft's employee id is not 0 and is
  the id of one of the supplied employees, and the month picker's value is not empty;
  when one of the three fails, a click on Save calls nothing, whatever the other
  fields hold.
\<close>

theorem save_requires_employee_and_month:
  "(click_save props s = Some r \<longrightarrow>
      employeeId (draft s) \<noteq> 0 \<and>
      employeeId (draft s) \<in> emp_id ` set (employees props) \<and>
      monthInput s \<noteq> []) \<and>
   (employeeId (draft s) = 0 \<or>
    employeeId (draft s) \<notin> emp_id ` set (employees props) \<or>
    monthInput s = [] \<longrightarrow> click_save props s = None)"
proof -
  have only: "employeeId (draft s) \<noteq> 0 \<and>
      employeeId (draft s) \<in> emp_id ` set (employees props) \<and> monthInput s \<noteq> []"
    if "click_save props s = Some r'" for r'
    using click_save_SomeD(2-4) [OF that] by (simp add: employeeMap_None)
  then have "click_save props s = None"
    if "employeeId (draft s) = 0 \<or>
        employeeId (draft s) \<notin> emp_id ` set (employees props) \<or> monthInput s = []"
    using that by (cases "click_save props s") auto
  with only show ?thesis by blast
qed

text \<open>
  The run \<open>demo_events\<close> is saved, with employee 7 chosen and a month in the picker;
  the fresh dialog, with no employee chosen, is not.
\<close>

theorem save_requires_employee_and_month_witness:
  "click_save create_props (opened demo_host create_props demo_events) = Some demo_saved \<and>
   employeeId (draft (opened demo_host create_props demo_events)) \<noteq> 0 \<and>
   employeeId (draft (opened demo_host create_props demo_events))
     \<in> emp_id ` set (employees create_props) \<and>
   monthInput (opened demo_host create_props demo_events) \<noteq> [] \<and>
   employeeId (draft (opened demo_host create_props [])) = 0 \<and>
   click_save create_props (opened demo_host create_props []) = None"
proof -
  have zero: "employeeId (draft (opened demo_host create_props [])) = 0"
    by code_simp
  from save_requires_employee_and_month
    [of create_props "opened demo_host create_props demo_events" demo_saved]
  have "employeeId (draft (opened demo_host create_props demo_events)) \<noteq> 0 \<and>
      employeeId (draft (opened demo_host create_props demo_events))
        \<in> emp_id ` set (employees create_props) \<and>
      monthInput (opened demo_host create_props demo_events) \<noteq> []"
    using demo_create_save by blast
  moreover from save_requires_employee_and_month
    [of create_props "opened demo_host create_props []" demo_saved]
  have "click_save create_props (opened demo_host create_props []) = None"
    using zero by blast
  ultimately show ?thesis
    using demo_create_save zero by blast
qed

subsection \<open>C4: the identifier of an edited record\<close>

text \<open>
  C4. When the dialog was opened on an existing record, the record handed to the save
  callback has that record's identifier, whatever state the edits have led to.
\<close>

theorem save_keeps_original_id:
  assumes "initialRecord props = Some r0" and "click_save props s = Some r"
  shows "rec_id r = rec_id r0"
  using click_save_SomeD(5) [OF assms(2)] assms(1) by simp

theorem save_keeps_original_id_witness:
  "initialRecord (edit_props stale_record) = Some stale_record \<and>
   click_save (edit_props stale_record)
     (opened utc_host (edit_props stale_record) edit_events) = Some edit_saved \<and>
   rec_id edit_saved = rec_id stale_record"
proof -
  have init: "initialRecord (edit_props stale_record) = Some stale_record"
    by (simp add: edit_props_def)
  from save_keeps_original_id [OF init demo_edit_save] init demo_edit_save
  show ?thesis by simp
qed

subsection \<open>C5: the identifier of a new record\<close>

text \<open>
  C5. When no record was supplied, the identifier of the saved record is
  \<^verbatim>\<open>payroll-\<close>, the employee id chosen in the draft, \<^verbatim>\<open>-\<close> and the draft's month label
  with its first space turned into \<^verbatim>\<open>-\<close>: a function of the chosen employee id and the
  month label alone. It differs from every placeholder identifier \<^verbatim>\<open>payroll-new-...\<close>
  that \<open>emptyRecord\<close> gives a draft.
\<close>

theorem save_new_id:
  assumes "initialRecord props = None" and "click_save props s = Some r"
  shows "rec_id r =
           ''payroll-'' @ String_int (employeeId (draft s)) @ ''-'' @
           replace CHR '' '' CHR ''-'' (month (draft s)) \<and>
         rec_id r \<noteq> rec_id (emptyRecord h a b)"
proof -
  from click_save_SomeD(5) [OF assms(2)] assms(1)
  have r: "r = (draft s)\<lparr>rec_id :=
      ''payroll-'' @ String_int (employeeId (draft s)) @ ''-'' @
      replace CHR '' '' CHR ''-'' (month (draft s))\<rparr>"
    by simp
  then have "rec_id r =
      ''payroll-'' @ String_int (employeeId (draft s)) @ ''-'' @
      replace CHR '' '' CHR ''-'' (month (draft s))"
    by simp
  moreover have "rec_id r \<noteq> rec_id (emptyRecord h a b)"
    using String_int_not_new
      [of "employeeId (draft s)" "''-'' @ replace CHR '' '' CHR ''-'' (month (draft s))"
        "String_int (now h)"]
    by (simp add: r emptyRecord_def)
  ultimately show ?thesis by simp
qed

text \<open>
  In the run \<open>demo_events\<close> the draft has employee 7 and the month \<^verbatim>\<open>November 2026\<close>, and
  the saved identifier is made of these two.
\<close>

theorem save_new_id_witness:
  "initialRecord create_props = None \<and>
   click_save create_props (opened demo_host create_props demo_events) = Some demo_saved \<and>
   employeeId (draft (opened demo_host create_props demo_events)) = 7 \<and>
   month (draft (opened demo_host create_props demo_events)) = ''November 2026'' \<and>
   rec_id demo_saved =
     ''payroll-'' @ String_int (employeeId (draft (opened demo_host create_props demo_events))) @
     ''-'' @ replace CHR '' '' CHR ''-'' (month (draft (opened demo_host create_props demo_events))) \<and>
   rec_id demo_saved = ''payroll-7-November-2026'' \<and>
   rec_id (emptyRecord demo_host None None) = ''payroll-new-1793601000123'' \<and>
   rec_id demo_saved \<noteq> rec_id (emptyRecord demo_host None None)"
proof -
  have init: "initialRecord create_props = None"
    by (simp add: create_props_def)
  have chosen: "employeeId (draft (opened demo_host create_props demo_events)) = 7"
    "month (draft (opened demo_host create_props demo_events)) = ''November 2026''"
    by code_simp+
  have placeholder: "rec_id (emptyRecord demo_host None None) = ''payroll-new-1793601000123''"
    by code_simp
  have saved: "rec_id demo_saved = ''payroll-7-November-2026''"
    by (simp add: demo_saved_def)
  note id = save_new_id [OF init demo_create_save, of demo_host None None]
  from id [THEN conjunct1] id [THEN conjunct2] init chosen placeholder saved demo_create_save
  show ?thesis
    by (intro conjI)
qed

subsection \<open>C6: a month label that is no date\<close>

text \<open>
  C6 (as amended). For a label that \<^verbatim>\<open>new Date\<close> cannot read, \<open>ymFromLabel\<close> returns
  the empty string and throws nothing. When the dialog initialises its draft from a
  record with such a label, the month picker is set to the current year-month, the
  first seven characters of the clock's ISO string, which is not empty.
\<close>

theorem unparseable_label:
  assumes "Date_parse h label = None"
  shows "ymFromLabel h label = [] \<and>
         (initialRecord props = Some r0 \<and> month r0 = label \<longrightarrow>
            monthInput (init_effect h props s) = slice0 7 (toISOString (now h)) \<and>
            monthInput (init_effect h props s) \<noteq> [])"
proof -
  from assms have "ymFromLabel h label = []"
    by (simp add: ymFromLabel_def)
  then show ?thesis
    by (simp add: monthInput_init_effect init_record_def slice_toISOString_nonempty)
qed

theorem unparseable_label_witness:
  "Date_parse demo_host ''TBD'' = None \<and>
   ymFromLabel demo_host ''TBD'' = [] \<and>
   initialRecord (edit_props tbd_record) = Some tbd_record \<and>
   month tbd_record = ''TBD'' \<and>
   monthInput (init_effect demo_host (edit_props tbd_record)
     (initial_state demo_host (edit_props tbd_record))) = ''2026-11''"
proof -
  have init: "initialRecord (edit_props tbd_record) = Some tbd_record"
    by (simp add: edit_props_def)
  have label: "month tbd_record = ''TBD''"
    by (simp add: tbd_record_def)
  from unparseable_label [OF Date_parse_TBD, of "edit_props tbd_record" tbd_record
      "initial_state demo_host (edit_props tbd_record)"]
  show ?thesis
    using init label Date_parse_TBD now_ym_demo_host by simp
qed

text \<open>
  C6 as stated fails in its second half: the dialog opened on \<open>tbd_record\<close>, whose
  label \<^verbatim>\<open>TBD\<close> is no date, shows the month \<^verbatim>\<open>2026-11\<close> of the clock in its picker.
\<close>

theorem unparseable_label_fills_picker:
  "Date_parse demo_host (month tbd_record) = None \<and>
   monthInput (opened demo_host (edit_props tbd_record) []) = ''2026-11'' \<and>
   monthInput (opened demo_host (edit_props tbd_record) []) \<noteq> []"
  by code_simp

subsection \<open>C7: blank and non-numeric amounts\<close>

text \<open>
  C7 (as amended). A change of the basic salary, allowances or deductions input sets
  the draft's field to 0 when the text is empty or \<^verbatim>\<open>parseFloat\<close> finds no number at its
  start (NaN), and to the number \<^verbatim>\<open>parseFloat\<close> reads at the start of the text otherwise,
  also when text that is no number follows it: \<^verbatim>\<open>12abc\<close> gives 12, not 0. The three
  handlers are total functions of the text and the state: no text makes them fail.
\<close>

theorem amount_change_value:
  "basicSalary (draft (onChange_basic val s)) =
     (if val = [] \<or> parseFloat val = NaN then Finite 0 else parseFloat val) \<and>
   allowances (draft (onChange_allowances val s)) =
     (if val = [] \<or> parseFloat val = NaN then Finite 0 else parseFloat val) \<and>
   deductions (draft (onChange_deductions val s)) =
     (if val = [] \<or> parseFloat val = NaN then Finite 0 else parseFloat val)"
proof -
  have "amount_of val = (if val = [] \<or> parseFloat val = NaN then Finite 0 else parseFloat val)"
    by (cases "parseFloat val") (simp_all add: amount_of_def)
  then show ?thesis
    by (simp add: onChange_basic_def onChange_allowances_def onChange_deductions_def Let_def)
qed

text \<open>
  On the draft of \<open>stale_record\<close>, whose amounts are 5000, 200 and 100, the text
  \<^verbatim>\<open>abc\<close> and the empty text both give 0, and the text \<^verbatim>\<open>12.5\<close> gives 12.5.
\<close>

theorem amount_change_value_witness:
  "parseFloat ''abc'' = NaN \<and>
   basicSalary (draft (opened utc_host (edit_props stale_record) [])) = Finite 5000 \<and>
   basicSalary (draft (onChange_basic ''abc''
     (opened utc_host (edit_props stale_record) []))) = Finite 0 \<and>
   allowances (draft (onChange_allowances ''abc''
     (opened utc_host (edit_props stale_record) []))) = Finite 0 \<and>
   deductions (draft (onChange_deductions []
     (opened utc_host (edit_props stale_record) []))) = Finite 0 \<and>
   basicSalary (draft (onChange_basic ''12.5''
     (opened utc_host (edit_props stale_record) []))) = Finite (25 / 2)"
proof -
  have nan: "parseFloat ''abc'' = NaN"
    by code_simp
  have num: "parseFloat ''12.5'' = Finite (25 / 2)"
    by code_simp
  have before: "basicSalary (draft (opened utc_host (edit_props stale_record) [])) = Finite 5000"
    by code_simp
  from amount_change_value [of "''abc''" "opened utc_host (edit_props stale_record) []"]
    amount_change_value [of "[]" "opened utc_host (edit_props stale_record) []"]
    amount_change_value [of "''12.5''" "opened utc_host (edit_props stale_record) []"]
  show ?thesis
    using nan num before by simp
qed

text \<open>
  C7 as stated fails: the texts \<^verbatim>\<open>12abc\<close> and \<^verbatim>\<open>1,5\<close> are no numbers, and the fields
  become 12 and 1, the numbers at their start, not 0.
\<close>

theorem numeric_prefix_amount:
  "parseFloat ''12abc'' = Finite 12 \<and>
   basicSalary (draft (onChange_basic ''12abc''
     (opened utc_host (edit_props stale_record) []))) = Finite 12 \<and>
   allowances (draft (onChange_allowances ''1,5''
     (opened utc_host (edit_props stale_record) []))) = Finite 1"
  by code_simp

subsection \<open>C8: the reset of the draft\<close>

text \<open>
  C8 (as amended). When the effect runs (the caller supplied another record, or the
  dialog opened again), the state after it is the same whatever the state before it
  was: no cell keeps a value of the previous draft. With a record supplied, the draft
  is that record and the three amount inputs hold the texts of its amounts (empty for
  0 and NaN), all four derived from the record alone; the month picker holds the
  year-month that \<open>ymFromLabel\<close> reads from the record's label on the host, or, when
  that is empty, the year-month of the host's clock.
\<close>

theorem reset_replaces_draft:
  "init_effect h props s = init_effect h props s' \<and>
   (initialRecord props = Some r0 \<longrightarrow>
      draft (init_effect h props s) = r0 \<and>
      basicInput (init_effect h props s) =
        (if truthy (basicSalary r0) then String_num (basicSalary r0) else []) \<and>
      allowancesInput (init_effect h props s) =
        (if truthy (allowances r0) then String_num (allowances r0) else []) \<and>
      deductionsInput (init_effect h props s) =
        (if truthy (deductions r0) then String_num (deductions r0) else []) \<and>
      monthInput (init_effect h props s) =
        (if ymFromLabel h (month r0) \<noteq> [] then ymFromLabel h (month r0)
         else slice0 7 (toISOString (now h))))"
proof -
  have "init_effect h props s = init_effect h props s'"
    by (simp add: init_effect_explicit)
  moreover have "draft (init_effect h props s) = r0 \<and>
      basicInput (init_effect h props s) =
        (if truthy (basicSalary r0) then String_num (basicSalary r0) else []) \<and>
      allowancesInput (init_effect h props s) =
        (if truthy (allowances r0) then String_num (allowances r0) else []) \<and>
      deductionsInput (init_effect h props s) =
        (if truthy (deductions r0) then String_num (deductions r0) else []) \<and>
      monthInput (init_effect h props s) =
        (if ymFromLabel h (month r0) \<noteq> [] then ymFromLabel h (month r0)
         else slice0 7 (toISOString (now h)))"
    if "initialRecord props = Some r0"
    using that by (simp add: init_effect_explicit init_record_def input_text_def)
  ultimately show ?thesis by blast
qed

text \<open>
  After the run \<open>demo_events\<close> of a dialog that creates a record, the caller supplies
  \<open>stale_record\<close>: every cell holds what that record gives.
\<close>

theorem reset_replaces_draft_witness:
  "initialRecord (edit_props stale_record) = Some stale_record \<and>
   draft (init_effect utc_host (edit_props stale_record)
     (opened demo_host create_props demo_events)) = stale_record \<and>
   basicInput (init_effect utc_host (edit_props stale_record)
     (opened demo_host create_props demo_events)) = ''5000'' \<and>
   allowancesInput (init_effect utc_host (edit_props stale_record)
     (opened demo_host create_props demo_events)) = ''200'' \<and>
   deductionsInput (init_effect utc_host (edit_props stale_record)
     (opened demo_host create_props demo_events)) = ''100'' \<and>
   monthInput (init_effect utc_host (edit_props stale_record)
     (opened demo_host create_props demo_events)) = ''2025-09'' \<and>
   init_effect utc_host (edit_props stale_record)
     (opened demo_host create_props demo_events) =
   init_effect utc_host (edit_props stale_record)
     (initial_state utc_host (edit_props stale_record))"
proof -
  have init: "initialRecord (edit_props stale_record) = Some stale_record"
    by (simp add: edit_props_def)
  have texts:
    "(if truthy (basicSalary stale_record) then String_num (basicSalary stale_record)
      else []) = ''5000''"
    "(if truthy (allowances stale_record) then String_num (allowances stale_record)
      else []) = ''200''"
    "(if truthy (deductions stale_record) then String_num (deductions stale_record)
      else []) = ''100''"
    "(if ymFromLabel utc_host (month stale_record) \<noteq> []
      then ymFromLabel utc_host (month stale_record)
      else slice0 7 (toISOString (now utc_host))) = ''2025-09''"
    by code_simp+
  note cells = reset_replaces_draft [THEN conjunct2, rule_format, OF init, of utc_host
      "opened demo_host create_props demo_events"]
  have same: "init_effect utc_host (edit_props stale_record)
      (opened demo_host create_props demo_events) =
    init_effect utc_host (edit_props stale_record)
      (initial_state utc_host (edit_props stale_record))"
    by (rule reset_replaces_draft [THEN conjunct1])
  from cells show ?thesis
    unfolding texts using init same by blast
qed

text \<open>
  C8 as stated fails: the month picker is not derived from the record alone. The
  dialog opened on \<open>tbd_record\<close> shows \<^verbatim>\<open>1970-01\<close> on a host whose clock reads 0 and
  \<^verbatim>\<open>2026-11\<close> on \<open>demo_host\<close>.
\<close>

theorem reset_month_from_clock:
  "monthInput (init_effect (label_host 0 0) (edit_props tbd_record)
     (initial_state (label_host 0 0) (edit_props tbd_record))) = ''1970-01'' \<and>
   monthInput (init_effect demo_host (edit_props tbd_record)
     (initial_state demo_host (edit_props tbd_record))) = ''2026-11''"
  by code_simp

subsection \<open>C9: what Save hands over\<close>



subsection \<open>C10: the month label of the draft\<close>




end
